theory Spec2Isabelle
  imports Complex_Main "HOL-Library.Multiset"
begin

section \<open>Canvas.py: colours, rectangles, the canvas and its telemetry\<close>

text \<open>
  A shallow embedding of \<^verbatim>\<open>src/Canvas.py\<close>. Python's unbounded integers are \<open>int\<close>.
  Python's floats (the alpha of a colour, the timing samples) are modelled by the
  rationals: sums, products and quotients are the exact ones, so the rounding of IEEE
  arithmetic is idealised away. A raised exception is a value of \<open>py_error\<close>; a
  method that mutates its object returns the object as it is when the exception leaves.
\<close>

datatype py_error = IndexError | ValueError | ZeroDivisionError | RecursionError | KeyError | NoSamples

text \<open>
  \<open>NoSamples\<close> is the condition the specification names for an average over no samples;
  no path of the source raises it.
\<close>

subsection \<open>Color\<close>

text \<open>
  \<^verbatim>\<open>Color.__init__\<close> stores the three channels and the alpha; its defaults are
  \<^verbatim>\<open>red = green = blue = 255\<close> and \<^verbatim>\<open>alpha = 1.0\<close>.
\<close>

record color =
  red :: int
  green :: int
  blue :: int
  alpha :: rat

definition Color :: "int \<Rightarrow> int \<Rightarrow> int \<Rightarrow> rat \<Rightarrow> color" where
  "Color r g b a = \<lparr>red = r, green = g, blue = b, alpha = a\<rparr>"

definition Color_default :: color where
  "Color_default = Color 255 255 255 1"

definition rgb :: "color \<Rightarrow> int \<times> int \<times> int" where
  "rgb c = (red c, green c, blue c)"

text \<open>Python's \<^verbatim>\<open>int(x)\<close> on a float truncates towards zero.\<close>

definition py_int :: "rat \<Rightarrow> int" where
  "py_int q = (if 0 \<le> q then \<lfloor>q\<rfloor> else \<lceil>q\<rceil>)"

text \<open>
  \<^verbatim>\<open>Color.blend\<close>: each channel is \<^verbatim>\<open>int(self.c * self.alpha + other.c * (1 - self.alpha))\<close>;
  the result is built by \<^verbatim>\<open>Color(red, green, blue)\<close>, so its alpha is the default 1.0.
\<close>

definition blend :: "color \<Rightarrow> color \<Rightarrow> color" where
  "blend self other =
     (let r = py_int (of_int (red self) * alpha self + of_int (red other) * (1 - alpha self));
          g = py_int (of_int (green self) * alpha self + of_int (green other) * (1 - alpha self));
          b = py_int (of_int (blue self) * alpha self + of_int (blue other) * (1 - alpha self))
      in Color r g b 1)"



subsection \<open>The hex codec of Color\<close>

text \<open>
  The property \<^verbatim>\<open>hex\<close>. Here a \<open>char\<close> is a code point below 256, so \<open>length\<close> is
  Python's \<^verbatim>\<open>len\<close>. The getter formats each channel with \<^verbatim>\<open>{:02x}\<close>: lowercase hex,
  padded with zeros to two places, a minus sign in front of a negative channel.
\<close>

definition hex_digit :: "nat \<Rightarrow> char" where
  "hex_digit n = ''0123456789abcdef'' ! (n mod 16)"

fun hex_digits :: "nat \<Rightarrow> string" where
  "hex_digits n = (if n < 16 then [hex_digit n] else hex_digits (n div 16) @ [hex_digit (n mod 16)])"

declare hex_digits.simps [simp del]

definition format_02x :: "int \<Rightarrow> string" where
  "format_02x n =
     (if 0 \<le> n then (let d = hex_digits (nat n) in replicate (2 - length d) CHR ''0'' @ d)
      else CHR ''-'' # hex_digits (nat (- n)))"

definition hex :: "color \<Rightarrow> string" where
  "hex self = CHR ''#'' # format_02x (red self) @ format_02x (green self) @ format_02x (blue self)"

text \<open>
  \<^verbatim>\<open>int(s, 16)\<close>: white space around the text is dropped, then an optional sign, an
  optional \<^verbatim>\<open>0x\<close> (which may be followed by one underscore), then hex digits of either
  case with single underscores between them; anything else raises \<^verbatim>\<open>ValueError\<close>.
\<close>

definition py_isspace :: "char \<Rightarrow> bool" where
  "py_isspace c = (let n = (of_char c :: nat) in (9 \<le> n \<and> n \<le> 13) \<or> n = 32 \<or> n = 133 \<or> n = 160)"

definition hexval :: "char \<Rightarrow> nat option" where
  "hexval c =
     (let n = (of_char c :: nat) in
      if 48 \<le> n \<and> n \<le> 57 then Some (n - 48)
      else if 97 \<le> n \<and> n \<le> 102 then Some (n - 87)
      else if 65 \<le> n \<and> n \<le> 70 then Some (n - 55)
      else None)"

fun hex_acc :: "nat \<Rightarrow> string \<Rightarrow> nat option" where
  "hex_acc acc [] = Some acc"
| "hex_acc acc (c # cs) =
     (if c = CHR ''_'' then
        (case cs of [] \<Rightarrow> None | d # _ \<Rightarrow> if d = CHR ''_'' then None else hex_acc acc cs)
      else (case hexval c of None \<Rightarrow> None | Some v \<Rightarrow> hex_acc (16 * acc + v) cs))"

definition hex_body :: "string \<Rightarrow> nat option" where
  "hex_body s = (case s of [] \<Rightarrow> None | c # _ \<Rightarrow> if c = CHR ''_'' then None else hex_acc 0 s)"

definition strip_prefix16 :: "string \<Rightarrow> string" where
  "strip_prefix16 s =
     (case s of
        a # b # rest \<Rightarrow>
          if a = CHR ''0'' \<and> (b = CHR ''x'' \<or> b = CHR ''X'')
          then (case rest of c # rest' \<Rightarrow> if c = CHR ''_'' then rest' else rest | [] \<Rightarrow> rest)
          else s
      | _ \<Rightarrow> s)"

definition py_int16 :: "string \<Rightarrow> py_error + int" where
  "py_int16 s =
     (let t = rev (dropWhile py_isspace (rev (dropWhile py_isspace s)));
          (sgn, u) = (case t of [] \<Rightarrow> (1, t)
                      | c # cs \<Rightarrow> if c = CHR ''+'' then (1, cs) else if c = CHR ''-'' then (- 1, cs) else (1, t))
      in case hex_body (strip_prefix16 u) of
           None \<Rightarrow> Inl ValueError
         | Some n \<Rightarrow> Inr (sgn * int n))"


text \<open>
  The setter assigns \<^verbatim>\<open>red\<close>, \<^verbatim>\<open>green\<close> and \<^verbatim>\<open>blue\<close> one after the other, so a
  \<^verbatim>\<open>ValueError\<close> from a later channel leaves the earlier ones assigned.
\<close>

definition hex_set :: "string \<Rightarrow> color \<Rightarrow> py_error option \<times> color" where
  "hex_set v self =
     (if length v = 7 then
        (case py_int16 (take 2 (drop 1 v)) of
           Inl e \<Rightarrow> (Some e, self)
         | Inr r \<Rightarrow>
             (case py_int16 (take 2 (drop 3 v)) of
                Inl e \<Rightarrow> (Some e, self\<lparr>red := r\<rparr>)
              | Inr g \<Rightarrow>
                  (case py_int16 (take 2 (drop 5 v)) of
                     Inl e \<Rightarrow> (Some e, self\<lparr>red := r, green := g\<rparr>)
                   | Inr b \<Rightarrow> (None, self\<lparr>red := r, green := g, blue := b\<rparr>))))
      else if length v = 4 then
        (case py_int16 [v ! 1, v ! 1] of
           Inl e \<Rightarrow> (Some e, self)
         | Inr r \<Rightarrow>
             (case py_int16 [v ! 2, v ! 2] of
                Inl e \<Rightarrow> (Some e, self\<lparr>red := r\<rparr>)
              | Inr g \<Rightarrow>
                  (case py_int16 [v ! 3, v ! 3] of
                     Inl e \<Rightarrow> (Some e, self\<lparr>red := r, green := g\<rparr>)
                   | Inr b \<Rightarrow> (None, self\<lparr>red := r, green := g, blue := b\<rparr>))))
      else (None, self))"

definition lower_hex :: "char \<Rightarrow> bool" where
  "lower_hex c = (c \<in> set ''0123456789abcdef'')"

subsection \<open>Rectangle and Canvas\<close>

record rectangle =
  layer :: int
  rect_x :: int
  rect_y :: int
  rect_width :: int
  rect_height :: int
  background_color :: color
  border_color :: color
  border_width :: int

definition Rectangle :: "int \<Rightarrow> int \<Rightarrow> int \<Rightarrow> int \<Rightarrow> rectangle" where
  "Rectangle x y w h =
     \<lparr>layer = 0, rect_x = x, rect_y = y, rect_width = w, rect_height = h,
      background_color = Color 255 255 255 0,
      border_color = snd (hex_set ''#000'' Color_default),
      border_width = 1\<rparr>"

record canvas =
  width :: int
  height :: int
  title :: string
  pixels :: "color list list"

definition py_range :: "int \<Rightarrow> int \<Rightarrow> int list" where
  "py_range a b = [a..b - 1]"

definition Canvas :: "int \<Rightarrow> int \<Rightarrow> string \<Rightarrow> canvas" where
  "Canvas w h t =
     \<lparr>width = w, height = h, title = t,
      pixels = map (\<lambda>_. map (\<lambda>_. Color_default) (py_range 0 w)) (py_range 0 h)\<rparr>"

text \<open>
  Indexing a list: an index from \<open>-len\<close> up to \<open>-1\<close> counts from the end, one outside
  \<open>[-len, len)\<close> raises \<^verbatim>\<open>IndexError\<close>.
\<close>

definition py_index :: "nat \<Rightarrow> int \<Rightarrow> nat option" where
  "py_index n i =
     (if 0 \<le> i \<and> i < int n then Some (nat i)
      else if - int n \<le> i \<and> i < 0 then Some (nat (int n + i))
      else None)"

definition getitem :: "'a list \<Rightarrow> int \<Rightarrow> py_error + 'a" where
  "getitem xs i = (case py_index (length xs) i of None \<Rightarrow> Inl IndexError | Some k \<Rightarrow> Inr (xs ! k))"

definition setitem :: "'a list \<Rightarrow> int \<Rightarrow> 'a \<Rightarrow> py_error + 'a list" where
  "setitem xs i v = (case py_index (length xs) i of None \<Rightarrow> Inl IndexError | Some k \<Rightarrow> Inr (xs[k := v]))"

text \<open>A \<^verbatim>\<open>for\<close> loop whose body may raise: the first exception ends the loop.\<close>

fun for_each :: "('a \<Rightarrow> 's \<Rightarrow> py_error option \<times> 's) \<Rightarrow> 'a list \<Rightarrow> 's \<Rightarrow> py_error option \<times> 's" where
  "for_each body [] s = (None, s)"
| "for_each body (a # as) s =
     (case body a s of
        (Some e, s') \<Rightarrow> (Some e, s')
      | (None, s') \<Rightarrow> for_each body as s')"

text \<open>
  \<^verbatim>\<open>Rectangle.draw\<close>: \<open>on_border\<close> is the condition of its \<^verbatim>\<open>if\<close>, \<open>draw_pixel\<close> the
  assignment to \<^verbatim>\<open>canvas.pixels[y][x]\<close> of either branch, and \<open>Rectangle_draw\<close> the two
  nested loops over \<^verbatim>\<open>range(y, y + height)\<close> and \<^verbatim>\<open>range(x, x + width)\<close>.
\<close>

definition on_border :: "rectangle \<Rightarrow> int \<Rightarrow> int \<Rightarrow> bool" where
  "on_border self y x =
     (y = rect_y self \<or> y = rect_y self + rect_height self - 1
      \<or> x = rect_x self \<or> x = rect_x self + rect_width self - 1)"

definition paint :: "rectangle \<Rightarrow> int \<Rightarrow> int \<Rightarrow> color" where
  "paint self y x = (if on_border self y x then border_color self else background_color self)"

definition draw_pixel :: "rectangle \<Rightarrow> int \<Rightarrow> int \<Rightarrow> color list list \<Rightarrow> py_error option \<times> color list list" where
  "draw_pixel self y x px =
     (case getitem px y of
        Inl e \<Rightarrow> (Some e, px)
      | Inr row \<Rightarrow>
          (case getitem row x of
             Inl e \<Rightarrow> (Some e, px)
           | Inr old \<Rightarrow>
               (case setitem row x (blend (paint self y x) old) of
                  Inl e \<Rightarrow> (Some e, px)
                | Inr row' \<Rightarrow>
                    (case setitem px y row' of
                       Inl e \<Rightarrow> (Some e, px)
                     | Inr px' \<Rightarrow> (None, px')))))"

definition Rectangle_draw :: "rectangle \<Rightarrow> canvas \<Rightarrow> py_error option \<times> canvas" where
  "Rectangle_draw self c =
     (case for_each
             (\<lambda>y. for_each (draw_pixel self y) (py_range (rect_x self) (rect_x self + rect_width self)))
             (py_range (rect_y self) (rect_y self + rect_height self))
             (pixels c) of
        (e, px) \<Rightarrow> (e, c\<lparr>pixels := px\<rparr>))"

text \<open>
  \<open>grid_ok\<close> is the shape \<^verbatim>\<open>Canvas.__init__\<close> gives the grid, \<open>in_box\<close> the box of a
  rectangle, and \<open>box_in_grid\<close> says that every coordinate of the box is one of the grid.
\<close>

definition pixel :: "canvas \<Rightarrow> int \<Rightarrow> int \<Rightarrow> color" where
  "pixel c y x = pixels c ! nat y ! nat x"

definition in_box :: "rectangle \<Rightarrow> int \<Rightarrow> int \<Rightarrow> bool" where
  "in_box self y x =
     (rect_y self \<le> y \<and> y < rect_y self + rect_height self
      \<and> rect_x self \<le> x \<and> x < rect_x self + rect_width self)"

definition grid_ok :: "canvas \<Rightarrow> bool" where
  "grid_ok c = (length (pixels c) = nat (height c) \<and> list_all (\<lambda>row. length row = nat (width c)) (pixels c))"

definition box_in_grid :: "rectangle \<Rightarrow> canvas \<Rightarrow> bool" where
  "box_in_grid self c =
     (rect_width self \<le> 0 \<or> rect_height self \<le> 0
      \<or> (0 \<le> rect_x self \<and> rect_x self + rect_width self \<le> width c
          \<and> 0 \<le> rect_y self \<and> rect_y self + rect_height self \<le> height c))"

text \<open>
  \<open>painted self P px px'\<close>: the grid \<open>px'\<close> has the shape of \<open>px\<close>, the cells that \<open>P\<close> selects
  hold the rectangle's colour blended over the old cell, and every other cell is the old one.
\<close>

definition painted :: "rectangle \<Rightarrow> (int \<Rightarrow> int \<Rightarrow> bool) \<Rightarrow> color list list \<Rightarrow> color list list \<Rightarrow> bool" where
  "painted self P px px' =
     (length px' = length px
      \<and> (\<forall>i<length px. length (px' ! i) = length (px ! i)
            \<and> (\<forall>j<length (px ! i).
                  px' ! i ! j = (if P (int i) (int j) then blend (paint self (int i) (int j)) (px ! i ! j)
                                 else px ! i ! j))))"

subsection \<open>Log\<close>

text \<open>
  \<^verbatim>\<open>Log\<close> declares \<^verbatim>\<open>children\<close> and \<^verbatim>\<open>records\<close> in the class body, and
  \<^verbatim>\<open>__init__\<close> binds only \<^verbatim>\<open>name\<close> on the instance. Python looks an attribute up in
  the instance first and in the class next, so \<^verbatim>\<open>self.records\<close> of an instance that has
  no binding of its own is the one list of the class. An instance is modelled by its name
  and by the two bindings it may carry: \<open>None\<close> when the instance has none (what
  \<^verbatim>\<open>__init__\<close> leaves), \<open>Some xs\<close> when a caller has bound a list on the instance; such
  lists are taken to be unshared. Objects are references into \<open>log_insts\<close>.

  The record \<open>world\<close> is the state of the module: the class attributes of \<^verbatim>\<open>Log\<close>,
  \<^verbatim>\<open>Telemetry\<close> (\<^verbatim>\<open>roots\<close>, \<^verbatim>\<open>logs\<close>, a dict keyed by the identity of a callable, kept in
  insertion order) and \<^verbatim>\<open>Canvas\<close> (\<^verbatim>\<open>objects\<close>), the counter of function identities, the
  readings of \<^verbatim>\<open>time.time()\<close> (\<open>clock\<close>, read at \<open>ticks\<close>) and, in \<open>app\<close>, the object the
  running operation works on. \<open>calls\<close> is a ghost field: the drawables whose \<^verbatim>\<open>draw\<close> has
  been invoked, oldest first.
\<close>

type_synonym ref = nat

record log_inst =
  name :: string
  own_children :: "ref list option"
  own_records :: "rat list option"

record 's world =
  Log_children :: "ref list"
  Log_records :: "rat list"
  log_insts :: "ref \<Rightarrow> log_inst"
  next_ref :: ref
  Telemetry_roots :: "ref list"
  Telemetry_logs :: "(nat \<times> ref) list"
  next_fid :: nat
  clock :: "nat \<Rightarrow> rat"
  ticks :: nat
  Canvas_objects :: "rectangle list"
  calls :: "rectangle list"
  app :: 's

definition Log :: "string \<Rightarrow> 's world \<Rightarrow> ref \<times> 's world" where
  "Log nm w =
     (next_ref w,
      w\<lparr>log_insts := (log_insts w)(next_ref w := \<lparr>name = nm, own_children = None, own_records = None\<rparr>),
        next_ref := Suc (next_ref w)\<rparr>)"

definition records_of :: "'s world \<Rightarrow> ref \<Rightarrow> rat list" where
  "records_of w self = (case own_records (log_insts w self) of Some rs \<Rightarrow> rs | None \<Rightarrow> Log_records w)"

definition children_of :: "'s world \<Rightarrow> ref \<Rightarrow> ref list" where
  "children_of w self = (case own_children (log_insts w self) of Some cs \<Rightarrow> cs | None \<Rightarrow> Log_children w)"

definition Log_record :: "ref \<Rightarrow> rat \<Rightarrow> 's world \<Rightarrow> 's world" where
  "Log_record self delta w =
     (case own_records (log_insts w self) of
        None \<Rightarrow> w\<lparr>Log_records := Log_records w @ [delta]\<rparr>
      | Some rs \<Rightarrow> w\<lparr>log_insts := (log_insts w)(self := (log_insts w self)\<lparr>own_records := Some (rs @ [delta])\<rparr>)\<rparr>)"

definition Log_inside :: "ref \<Rightarrow> ref \<Rightarrow> 's world \<Rightarrow> 's world" where
  "Log_inside self lg w =
     (if lg \<in> set (children_of w self) then w
      else (case own_children (log_insts w self) of
              None \<Rightarrow> w\<lparr>Log_children := Log_children w @ [lg]\<rparr>
            | Some cs \<Rightarrow> w\<lparr>log_insts := (log_insts w)(self := (log_insts w self)\<lparr>own_children := Some (cs @ [lg])\<rparr>)\<rparr>))"

text \<open>
  \<^verbatim>\<open>round(x, 3)\<close>: to the nearest multiple of 1/1000, a tie going to the even one.
\<close>

definition round3 :: "rat \<Rightarrow> rat" where
  "round3 q =
     (let s = q * 1000; f = \<lfloor>s\<rfloor>; d = s - of_int f;
          k = (if d < 1 / 2 then f else if 1 / 2 < d then f + 1 else if even f then f else f + 1)
      in of_int k / 1000)"

text \<open>
  \<^verbatim>\<open>average\<close> divides the sum by \<^verbatim>\<open>len(self.records)\<close>; Python raises
  \<^verbatim>\<open>ZeroDivisionError\<close> when that length is 0.
\<close>

definition Log_average :: "'s world \<Rightarrow> ref \<Rightarrow> py_error + rat" where
  "Log_average w self =
     (let rs = records_of w self in
      if length rs = 0 then Inl ZeroDivisionError
      else Inr (round3 (sum_list rs / of_nat (length rs))))"

text \<open>
  The text an f-string gives for a float that \<open>round3\<close> produced: the integer part, a
  point, and the decimals without trailing zeros but at least one. This is Python's
  \<^verbatim>\<open>repr\<close> for magnitudes below \<open>10^12\<close>; a negative zero is not distinguished.
\<close>

definition dec_digit :: "nat \<Rightarrow> char" where
  "dec_digit n = ''0123456789'' ! (n mod 10)"

fun dec_digits :: "nat \<Rightarrow> string" where
  "dec_digits n = (if n < 10 then [dec_digit n] else dec_digits (n div 10) @ [dec_digit (n mod 10)])"

declare dec_digits.simps [simp del]

definition float_repr :: "rat \<Rightarrow> string" where
  "float_repr q =
     (let k = \<lfloor>q * 1000\<rfloor>; a = nat \<bar>k\<bar>; fp = a mod 1000;
          frac3 = [dec_digit (fp div 100), dec_digit (fp div 10), dec_digit fp];
          stripped = rev (dropWhile (\<lambda>c. c = CHR ''0'') (rev frac3))
      in (if k < 0 then ''-'' else '''') @ dec_digits (a div 1000) @ ''.''
         @ (if stripped = [] then ''0'' else stripped))"

text \<open>
  In \<^verbatim>\<open>report\<close> a string is its UTF-8 encoding: the method only concatenates and
  replaces the one-byte newline, which commute with the encoding. The four literals of
  the source are a space, U+2514, U+2500, a space; a space, U+251C, U+2500, a space;
  two spaces; and a space, U+2502, a space.
\<close>

definition newline :: char where
  "newline = CHR 0x0A"

definition replace_nl :: "string \<Rightarrow> string \<Rightarrow> string" where
  "replace_nl new s = concat (map (\<lambda>c. if c = newline then new else [c]) s)"

definition branch_last :: string where
  "branch_last = [CHR 0x20, CHR 0xE2, CHR 0x94, CHR 0x94, CHR 0xE2, CHR 0x94, CHR 0x80, CHR 0x20]"

definition branch_mid :: string where
  "branch_mid = [CHR 0x20, CHR 0xE2, CHR 0x94, CHR 0x9C, CHR 0xE2, CHR 0x94, CHR 0x80, CHR 0x20]"

definition cont_last :: string where
  "cont_last = [CHR 0x20, CHR 0x20]"

definition cont_mid :: string where
  "cont_mid = [CHR 0x20, CHR 0xE2, CHR 0x94, CHR 0x82, CHR 0x20]"

text \<open>
  The \<^verbatim>\<open>while\<close> loop of \<^verbatim>\<open>report\<close> over \<^verbatim>\<open>index\<close>, and \<^verbatim>\<open>report\<close> itself. The
  first argument of \<open>Log_report\<close> is the depth of nested calls the interpreter still
  allows: when it is used up Python raises \<^verbatim>\<open>RecursionError\<close>.
\<close>

function report_while :: "(ref \<Rightarrow> py_error + string) \<Rightarrow> ref list \<Rightarrow> nat \<Rightarrow> string \<Rightarrow> py_error + string" where
  "report_while child_report cs index report =
     (if index < length cs then
        (case child_report (cs ! index) of
           Inl e \<Rightarrow> Inl e
         | Inr rep \<Rightarrow>
             report_while child_report cs (index + 1)
               (if index = length cs - 1
                then report @ newline # branch_last @ replace_nl (newline # cont_last) rep
                else report @ newline # branch_mid @ replace_nl (newline # cont_mid) rep))
      else Inr report)"
  by pat_completeness auto
termination
  by (relation "measure (\<lambda>(f, cs, index, report). length cs - index)") auto

declare report_while.simps [simp del]

fun Log_report :: "nat \<Rightarrow> 's world \<Rightarrow> ref \<Rightarrow> py_error + string" where
  "Log_report 0 w self = Inl RecursionError"
| "Log_report (Suc depth) w self =
     (case Log_average w self of
        Inl e \<Rightarrow> Inl e
      | Inr avg \<Rightarrow>
          report_while (Log_report depth w) (children_of w self) 0
            (name (log_insts w self) @ '': '' @ float_repr avg @ ''s''))"

subsection \<open>Telemetry\<close>

text \<open>
  A callable has an identity (the key of the dict \<^verbatim>\<open>logs\<close>), a \<^verbatim>\<open>__name__\<close> and a body
  that runs on the world and either raises or returns a value; \<open>None\<close> is Python's
  \<^verbatim>\<open>None\<close>. \<open>register\<close> is the \<^verbatim>\<open>if ... not in self.logs\<close> block that both forms of
  \<^verbatim>\<open>measure\<close> start with, \<open>measure_call\<close> the form with a callback, \<open>measure_decorator\<close>
  and \<open>wrapper\<close> the decorating form.
\<close>

record ('s, 'r) callable =
  fid :: nat
  fname :: string
  body :: "'s world \<Rightarrow> (py_error + 'r option) \<times> 's world"

definition time_time :: "'s world \<Rightarrow> rat \<times> 's world" where
  "time_time w = (clock w (ticks w), w\<lparr>ticks := Suc (ticks w)\<rparr>)"

definition log_name :: "string option \<Rightarrow> string \<Rightarrow> string" where
  "log_name nm fallback = (case nm of None \<Rightarrow> fallback | Some n \<Rightarrow> if n = [] then fallback else n)"

definition register :: "string option \<Rightarrow> ('s, 'r) callable \<Rightarrow> 's world \<Rightarrow> 's world" where
  "register nm f w =
     (if fid f \<in> set (map fst (Telemetry_logs w)) then w
      else (case Log (log_name nm (fname f)) w of
              (l, w') \<Rightarrow> w'\<lparr>Telemetry_logs := Telemetry_logs w' @ [(fid f, l)],
                             Telemetry_roots := Telemetry_roots w' @ [l]\<rparr>))"


definition record_elapsed :: "nat \<Rightarrow> rat \<Rightarrow> 'r option \<Rightarrow> 's world \<Rightarrow> (py_error + 'r option) \<times> 's world" where
  "record_elapsed f delta result w =
     (case map_of (Telemetry_logs w) f of
        None \<Rightarrow> (Inl KeyError, w)
      | Some l \<Rightarrow> (Inr result, Log_record l delta w))"

definition measure_call :: "string option \<Rightarrow> ('s, 'r) callable \<Rightarrow> 's world \<Rightarrow> (py_error + 'r option) \<times> 's world" where
  "measure_call nm callback w =
     (case time_time (register nm callback w) of
        (start, w1) \<Rightarrow>
          (case body callback w1 of
             (Inl e, w2) \<Rightarrow> (Inl e, w2)
           | (Inr _, w2) \<Rightarrow>
               (case time_time w2 of
                  (end, w3) \<Rightarrow> record_elapsed (fid callback) (end - start) None w3)))"

definition wrapper :: "('s, 'r) callable \<Rightarrow> 's world \<Rightarrow> (py_error + 'r option) \<times> 's world" where
  "wrapper func w =
     (case time_time w of
        (start, w1) \<Rightarrow>
          (case body func w1 of
             (Inl e, w2) \<Rightarrow> (Inl e, w2)
           | (Inr result, w2) \<Rightarrow>
               (case time_time w2 of
                  (end, w3) \<Rightarrow> record_elapsed (fid func) (end - start) result w3)))"

definition measure_decorator :: "string option \<Rightarrow> ('s, 'r) callable \<Rightarrow> 's world \<Rightarrow> ('s, 'r) callable \<times> 's world" where
  "measure_decorator nm func w =
     (case register nm func w of
        w1 \<Rightarrow> (\<lparr>fid = next_fid w1, fname = ''wrapper'', body = wrapper func\<rparr>,
               w1\<lparr>next_fid := Suc (next_fid w1)\<rparr>))"

subsection \<open>Canvas.draw and Canvas.add\<close>








text \<open>
  \<open>module_world\<close> is the state before any class body has run; \<open>draw_world\<close> the state
  once \<^verbatim>\<open>draw\<close> has been decorated (its function object has identity 0).
\<close>

definition module_world :: "(nat \<Rightarrow> rat) \<Rightarrow> 's \<Rightarrow> 's world" where
  "module_world clk a =
     \<lparr>Log_children = [], Log_records = [],
      log_insts = (\<lambda>_. \<lparr>name = [], own_children = None, own_records = None\<rparr>),
      next_ref = 0, Telemetry_roots = [], Telemetry_logs = [], next_fid = 0,
      clock = clk, ticks = 0, Canvas_objects = [], calls = [], app = a\<rparr>"




subsection \<open>Lines of a report\<close>





text \<open>
  Concrete worlds for the examples. In \<open>tree_world\<close> a parent P has the children A and
  B, and each of the three carries lists of its own, as after a caller has bound
  \<^verbatim>\<open>children\<close> and \<^verbatim>\<open>records\<close> on each instance. \<open>three_logs\<close> holds three Logs
  as the constructor leaves them.
\<close>

definition clock0 :: "nat \<Rightarrow> rat" where
  "clock0 n = of_nat n"


definition three_logs :: "unit world" where
  "three_logs = snd (Log ''c'' (snd (Log ''l2'' (snd (Log ''l1'' (module_world clock0 ()))))))"

definition answer :: "(unit, int) callable" where
  "answer = \<lparr>fid = 7, fname = ''answer'', body = (\<lambda>w. (Inr (Some 42), w))\<rparr>"



section \<open>Verification\<close>

subsection \<open>Blend\<close>

lemma floor_rat_numeral [simp]:
  "\<lfloor>(numeral a :: rat) / numeral b\<rfloor> = numeral a div numeral b"
  using floor_divide_of_int_eq [of "numeral a" "numeral b", where ?'a = rat] by simp

lemma ceiling_rat_numeral [simp]:
  "\<lceil>(numeral a :: rat) / numeral b\<rceil> = - ((- numeral a) div numeral b)"
  using ceiling_divide_eq_div [of "numeral a" "numeral b", where ?'a = rat] by simp





subsection \<open>The hex codec\<close>

lemma lower_hex_cases:
  "lower_hex c \<Longrightarrow> c = CHR ''0'' \<or> c = CHR ''1'' \<or> c = CHR ''2'' \<or> c = CHR ''3'' \<or> c = CHR ''4''
     \<or> c = CHR ''5'' \<or> c = CHR ''6'' \<or> c = CHR ''7'' \<or> c = CHR ''8'' \<or> c = CHR ''9''
     \<or> c = CHR ''a'' \<or> c = CHR ''b'' \<or> c = CHR ''c'' \<or> c = CHR ''d'' \<or> c = CHR ''e'' \<or> c = CHR ''f''"
  by (simp add: lower_hex_def)

lemma lower_hex_plain:
  assumes "lower_hex c"
  shows "\<not> py_isspace c" "c \<noteq> CHR ''+''" "c \<noteq> CHR ''-''" "c \<noteq> CHR ''_''" "c \<noteq> CHR ''x''" "c \<noteq> CHR ''X''"
  using lower_hex_cases [OF assms] by (auto simp: py_isspace_def)

lemma lower_hex_value:
  assumes "lower_hex c"
  shows "\<exists>v. hexval c = Some v \<and> v < 16 \<and> hex_digit v = c"
  using lower_hex_cases [OF assms] by (auto simp: hexval_def hex_digit_def)

lemma int16_pair:
  assumes "lower_hex a" "lower_hex b" "hexval a = Some x" "hexval b = Some y"
  shows "py_int16 [a, b] = Inr (int (16 * x + y))"
  using lower_hex_plain [OF assms(1)] lower_hex_plain [OF assms(2)] assms(3,4)
  by (simp add: py_int16_def hex_body_def strip_prefix16_def)

lemma hex_digits_pair:
  assumes "x < 16" "y < 16"
  shows "hex_digits (16 * x + y) = (if x = 0 then [hex_digit y] else [hex_digit x, hex_digit y])"
proof (cases "x = 0")
  case True
  then show ?thesis using assms by (simp add: hex_digits.simps)
next
  case False
  then have "\<not> 16 * x + y < 16" by simp
  then show ?thesis using assms False
    by (simp add: hex_digits.simps [of "16 * x + y"] hex_digits.simps [of x])
qed

lemma format_pair:
  assumes "x < 16" "y < 16"
  shows "format_02x (int (16 * x + y)) = [hex_digit x, hex_digit y]"
proof -
  have z: "hex_digit 0 = CHR ''0''" by (simp add: hex_digit_def)
  have "format_02x (int (16 * x + y)) =
          (let d = hex_digits (16 * x + y) in replicate (2 - length d) CHR ''0'' @ d)"
    unfolding format_02x_def nat_int by simp
  then show ?thesis
    using z by (simp add: hex_digits_pair [OF assms])
qed

lemma pair_roundtrip:
  assumes "lower_hex a" "lower_hex b"
  shows "\<exists>n. py_int16 [a, b] = Inr n \<and> format_02x n = [a, b]"
proof -
  obtain x where x: "hexval a = Some x" "x < 16" "hex_digit x = a"
    using lower_hex_value [OF assms(1)] by blast
  obtain y where y: "hexval b = Some y" "y < 16" "hex_digit y = b"
    using lower_hex_value [OF assms(2)] by blast
  show ?thesis
    using int16_pair [OF assms x(1) y(1)] format_pair [OF x(2) y(2)] x(3) y(3) by simp
qed

lemma list7:
  assumes "length s = 7"
  shows "\<exists>h a b c d e f. s = [h, a, b, c, d, e, f]"
  using assms by (auto simp: length_Suc_conv eval_nat_numeral)

text \<open>
  C7. For every 7-character string \<open>#rrggbb\<close> of lowercase hex digits, the hex setter
  followed by the hex getter gives the string back; the shorthand \<open>#0f0\<close> decodes to the
  channels (0,255,0).
\<close>

theorem hex_roundtrip:
  "(length s = 7 \<and> hd s = CHR ''#'' \<and> list_all lower_hex (tl s) \<longrightarrow>
      fst (hex_set s col) = None \<and> hex (snd (hex_set s col)) = s)
   \<and> fst (hex_set ''#0f0'' col) = None \<and> rgb (snd (hex_set ''#0f0'' col)) = (0, 255, 0)"
proof (intro conjI impI)
  assume h: "length s = 7 \<and> hd s = CHR ''#'' \<and> list_all lower_hex (tl s)"
  then obtain a b c d e f where s: "s = [CHR ''#'', a, b, c, d, e, f]"
    using list7 [of s] by auto
  with h have lh: "lower_hex a" "lower_hex b" "lower_hex c" "lower_hex d" "lower_hex e" "lower_hex f"
    by simp_all
  obtain r where r: "py_int16 [a, b] = Inr r" "format_02x r = [a, b]"
    using pair_roundtrip [OF lh(1,2)] by blast
  obtain g where g: "py_int16 [c, d] = Inr g" "format_02x g = [c, d]"
    using pair_roundtrip [OF lh(3,4)] by blast
  obtain bl where bl: "py_int16 [e, f] = Inr bl" "format_02x bl = [e, f]"
    using pair_roundtrip [OF lh(5,6)] by blast
  have hs: "hex_set [CHR ''#'', a, b, c, d, e, f] col = (None, col\<lparr>red := r, green := g, blue := bl\<rparr>)"
    using r(1) g(1) bl(1) by (simp add: hex_set_def)
  show "fst (hex_set s col) = None" unfolding s hs by simp
  show "hex (snd (hex_set s col)) = s"
    unfolding s hs using r(2) g(2) bl(2) by (simp add: hex_def)
next
  have z: "py_int16 ''00'' = Inr 0" "py_int16 ''ff'' = Inr 255"
    by (simp_all add: py_int16_def py_isspace_def hex_body_def strip_prefix16_def hexval_def)
  show "fst (hex_set ''#0f0'' col) = None" using z by (simp add: hex_set_def)
  show "rgb (snd (hex_set ''#0f0'' col)) = (0, 255, 0)" using z by (simp add: hex_set_def rgb_def)
qed

theorem hex_roundtrip_witness:
  "length ''#1a2b3c'' = 7 \<and> hd ''#1a2b3c'' = CHR ''#'' \<and> list_all lower_hex (tl ''#1a2b3c'')
   \<and> rgb (snd (hex_set ''#1a2b3c'' Color_default)) = (26, 43, 60)
   \<and> hex (snd (hex_set ''#1a2b3c'' Color_default)) = ''#1a2b3c''"
proof -
  have z: "py_int16 ''1a'' = Inr 26" "py_int16 ''2b'' = Inr 43" "py_int16 ''3c'' = Inr 60"
    by (simp_all add: py_int16_def py_isspace_def hex_body_def strip_prefix16_def hexval_def)
  have v: "rgb (snd (hex_set ''#1a2b3c'' Color_default)) = (26, 43, 60)"
    using z by (simp add: hex_set_def rgb_def)
  have p: "length ''#1a2b3c'' = 7 \<and> hd ''#1a2b3c'' = CHR ''#'' \<and> list_all lower_hex (tl ''#1a2b3c'')"
    by (simp add: lower_hex_def)
  show ?thesis using hex_roundtrip [of "''#1a2b3c''" Color_default] p v by blast
qed

text \<open>
  C8. A string whose length is neither 7 nor 4 leaves the colour as it was, and the setter
  raises nothing.
\<close>

theorem hex_set_other_length:
  "length s \<noteq> 7 \<Longrightarrow> length s \<noteq> 4 \<Longrightarrow> hex_set s col = (None, col)"
  by (simp add: hex_set_def)

theorem hex_set_other_length_witness:
  "length ''#12'' \<noteq> 7 \<and> length ''#12'' \<noteq> 4 \<and> hex_set ''#12'' (Color 1 2 3 (1/2)) = (None, Color 1 2 3 (1/2))"
  using hex_set_other_length [of "''#12''" "Color 1 2 3 (1/2)"] by simp

subsection \<open>Rectangle.draw\<close>

lemma py_index_in: "0 \<le> i \<Longrightarrow> nat i < n \<Longrightarrow> py_index n i = Some (nat i)"
  by (simp add: py_index_def)

lemma draw_pixel_in:
  assumes "0 \<le> y" "nat y < length px" "0 \<le> x" "nat x < length (px ! nat y)"
  shows "draw_pixel r y x px =
           (None, px[nat y := (px ! nat y)[nat x := blend (paint r y x) (px ! nat y ! nat x)]])"
  using assms by (simp add: draw_pixel_def getitem_def setitem_def py_index_in)

lemma painted_pixel:
  assumes "0 \<le> y" "nat y < length px" "0 \<le> x" "nat x < length (px ! nat y)"
  shows "painted r (\<lambda>i j. i = y \<and> j = x) px
           (px[nat y := (px ! nat y)[nat x := blend (paint r y x) (px ! nat y ! nat x)]])"
  using assms by (auto simp: painted_def nth_list_update)

lemma painted_trans:
  assumes "painted r P px px1" "painted r Q px1 px2" "\<And>i j. \<not> (P i j \<and> Q i j)"
  shows "painted r (\<lambda>i j. P i j \<or> Q i j) px px2"
  using assms unfolding painted_def by auto

lemma painted_none: "painted r (\<lambda>i j. False) px px"
  by (simp add: painted_def)

lemma painted_cong:
  assumes "painted r P px px'" "\<And>i j. 0 \<le> i \<Longrightarrow> 0 \<le> j \<Longrightarrow> P i j = Q i j"
  shows "painted r Q px px'"
  using assms unfolding painted_def by auto

lemma for_x_painted:
  assumes "0 \<le> y" "nat y < length px" "\<forall>x\<in>set xs. 0 \<le> x \<and> nat x < length (px ! nat y)" "distinct xs"
  shows "\<exists>px'. for_each (draw_pixel r y) xs px = (None, px') \<and> painted r (\<lambda>i j. i = y \<and> j \<in> set xs) px px'"
  using assms
proof (induction xs arbitrary: px)
  case Nil
  then show ?case by (simp add: painted_none)
next
  case (Cons x xs)
  let ?px1 = "px[nat y := (px ! nat y)[nat x := blend (paint r y x) (px ! nat y ! nat x)]]"
  have x: "0 \<le> x" "nat x < length (px ! nat y)" using Cons.prems by simp_all
  have step: "draw_pixel r y x px = (None, ?px1)"
    using draw_pixel_in [OF Cons.prems(1,2) x] .
  have p1: "painted r (\<lambda>i j. i = y \<and> j = x) px ?px1"
    using painted_pixel [OF Cons.prems(1,2) x] .
  have len: "nat y < length ?px1" using Cons.prems by simp
  have rows: "\<forall>x'\<in>set xs. 0 \<le> x' \<and> nat x' < length (?px1 ! nat y)"
    using Cons.prems by simp
  have d: "distinct xs" using Cons.prems by simp
  obtain px' where r: "for_each (draw_pixel r y) xs ?px1 = (None, px')"
    and p2: "painted r (\<lambda>i j. i = y \<and> j \<in> set xs) ?px1 px'"
    using Cons.IH [OF Cons.prems(1) len rows d] by blast
  have "painted r (\<lambda>i j. (i = y \<and> j = x) \<or> (i = y \<and> j \<in> set xs)) px px'"
    using painted_trans [OF p1 p2] Cons.prems(4) by auto
  then have "painted r (\<lambda>i j. i = y \<and> j \<in> set (x # xs)) px px'"
    by (rule painted_cong) auto
  then show ?case using step r by simp
qed

lemma for_y_painted:
  assumes "\<forall>y\<in>set ys. 0 \<le> y \<and> nat y < length px"
    and "\<forall>i<length px. \<forall>x\<in>set xs. 0 \<le> x \<and> nat x < length (px ! i)"
    and "distinct xs" "distinct ys"
  shows "\<exists>px'. for_each (\<lambda>y. for_each (draw_pixel r y) xs) ys px = (None, px')
           \<and> painted r (\<lambda>i j. i \<in> set ys \<and> j \<in> set xs) px px'"
  using assms
proof (induction ys arbitrary: px)
  case Nil
  then show ?case by (simp add: painted_none)
next
  case (Cons y ys)
  have y: "0 \<le> y" "nat y < length px" using Cons.prems(1) by simp_all
  have xs: "\<forall>x\<in>set xs. 0 \<le> x \<and> nat x < length (px ! nat y)"
    using Cons.prems(2) y by blast
  obtain px1 where s1: "for_each (draw_pixel r y) xs px = (None, px1)"
    and p1: "painted r (\<lambda>i j. i = y \<and> j \<in> set xs) px px1"
    using for_x_painted [OF y xs Cons.prems(3)] by blast
  have shape: "length px1 = length px" "\<forall>i<length px. length (px1 ! i) = length (px ! i)"
    using p1 by (simp_all add: painted_def)
  have a1: "\<forall>y'\<in>set ys. 0 \<le> y' \<and> nat y' < length px1"
    using Cons.prems(1) shape by simp
  have a2: "\<forall>i<length px1. \<forall>x\<in>set xs. 0 \<le> x \<and> nat x < length (px1 ! i)"
    using Cons.prems(2) shape by simp
  have d: "distinct ys" using Cons.prems(4) by simp
  obtain px' where s2: "for_each (\<lambda>y. for_each (draw_pixel r y) xs) ys px1 = (None, px')"
    and p2: "painted r (\<lambda>i j. i \<in> set ys \<and> j \<in> set xs) px1 px'"
    using Cons.IH [OF a1 a2 Cons.prems(3) d] by blast
  have "painted r (\<lambda>i j. (i = y \<and> j \<in> set xs) \<or> (i \<in> set ys \<and> j \<in> set xs)) px px'"
    using painted_trans [OF p1 p2] Cons.prems(4) by auto
  then have "painted r (\<lambda>i j. i \<in> set (y # ys) \<and> j \<in> set xs) px px'"
    by (rule painted_cong) auto
  then show ?case using s1 s2 by simp
qed

lemma set_py_range: "set (py_range a b) = {i. a \<le> i \<and> i < b}"
  by (auto simp: py_range_def)

lemma distinct_py_range: "distinct (py_range a b)"
  by (simp add: py_range_def)

lemma Rectangle_draw_painted:
  assumes "grid_ok c" "box_in_grid r c"
  shows "\<exists>px'. Rectangle_draw r c = (None, c\<lparr>pixels := px'\<rparr>) \<and> painted r (in_box r) (pixels c) px'"
proof -
  let ?ys = "py_range (rect_y r) (rect_y r + rect_height r)"
  let ?xs = "py_range (rect_x r) (rect_x r + rect_width r)"
  have rows: "\<forall>i<length (pixels c). length (pixels c ! i) = nat (width c)"
    using assms(1) by (simp add: grid_ok_def list_all_length)
  have len: "length (pixels c) = nat (height c)" using assms(1) by (simp add: grid_ok_def)
  show ?thesis
  proof (cases "rect_width r \<le> 0 \<or> rect_height r \<le> 0")
    case True
    then have e: "?xs = [] \<or> ?ys = []" by (auto simp: py_range_def)
    have run: "for_each (\<lambda>y. for_each (draw_pixel r y) ?xs) ?ys (pixels c) = (None, pixels c)"
    proof (cases "?ys = []")
      case True
      then show ?thesis by simp
    next
      case False
      with e have "?xs = []" by simp
      moreover have "for_each (\<lambda>y. for_each (draw_pixel r y) []) ys px = (None, px)" for ys px
        by (induction ys) simp_all
      ultimately show ?thesis by simp
    qed
    have "painted r (\<lambda>i j. False) (pixels c) (pixels c)" by (rule painted_none)
    then have "painted r (in_box r) (pixels c) (pixels c)"
      by (rule painted_cong) (use True in \<open>auto simp: in_box_def\<close>)
    then show ?thesis using run
      by (intro exI [of _ "pixels c"]) (simp add: Rectangle_draw_def)
  next
    case False
    with assms(2) have g: "0 \<le> rect_x r" "rect_x r + rect_width r \<le> width c"
      "0 \<le> rect_y r" "rect_y r + rect_height r \<le> height c"
      by (auto simp: box_in_grid_def)
    have a1: "\<forall>y\<in>set ?ys. 0 \<le> y \<and> nat y < length (pixels c)"
      using g len by (auto simp: set_py_range)
    have a2: "\<forall>i<length (pixels c). \<forall>x\<in>set ?xs. 0 \<le> x \<and> nat x < length (pixels c ! i)"
      using g rows by (auto simp: set_py_range)
    obtain px' where s: "for_each (\<lambda>y. for_each (draw_pixel r y) ?xs) ?ys (pixels c) = (None, px')"
      and p: "painted r (\<lambda>i j. i \<in> set ?ys \<and> j \<in> set ?xs) (pixels c) px'"
      using for_y_painted [OF a1 a2 distinct_py_range distinct_py_range] by blast
    have "painted r (in_box r) (pixels c) px'"
      using p by (rule painted_cong) (auto simp: set_py_range in_box_def)
    then show ?thesis using s
      by (intro exI [of _ px']) (simp add: Rectangle_draw_def)
  qed
qed

lemma painted_nth:
  assumes "painted r P (pixels c) px'" "0 \<le> y" "nat y < length (pixels c)" "0 \<le> x" "nat x < length (pixels c ! nat y)"
  shows "px' ! nat y ! nat x = (if P y x then blend (paint r y x) (pixel c y x) else pixel c y x)"
  using assms unfolding painted_def pixel_def by (auto simp: Let_def)

lemma grid_ok_Canvas: "grid_ok (Canvas w h t)"
  by (simp add: grid_ok_def Canvas_def py_range_def list_all_iff)

lemma pixel_Canvas:
  assumes "0 \<le> y" "y < h" "0 \<le> x" "x < w"
  shows "pixel (Canvas w h t) y x = Color_default"
  using assms by (simp add: pixel_def Canvas_def py_range_def)

lemma grid_dims:
  assumes "grid_ok c" "0 \<le> y" "y < height c" "0 \<le> x" "x < width c"
  shows "nat y < length (pixels c)" "nat x < length (pixels c ! nat y)"
proof -
  show y: "nat y < length (pixels c)" using assms by (simp add: grid_ok_def)
  then show "nat x < length (pixels c ! nat y)"
    using assms by (simp add: grid_ok_def list_all_length)
qed





text \<open>
  C10. When the rectangle's box lies within the canvas's grid, every pixel of the canvas
  outside the box is unchanged by \<open>Rectangle_draw\<close>.
\<close>

theorem Rectangle_draw_frame:
  assumes "grid_ok c" "box_in_grid r c" "0 \<le> y" "y < height c" "0 \<le> x" "x < width c" "\<not> in_box r y x"
  shows "pixel (snd (Rectangle_draw r c)) y x = pixel c y x"
proof -
  obtain px' where d: "Rectangle_draw r c = (None, c\<lparr>pixels := px'\<rparr>)"
    and p: "painted r (in_box r) (pixels c) px'"
    using Rectangle_draw_painted [OF assms(1,2)] by blast
  note n = grid_dims [OF assms(1,3,4,5,6)]
  have "px' ! nat y ! nat x = pixel c y x"
    using painted_nth [OF p assms(3) n(1) assms(5) n(2)] assms(7) by simp
  then show ?thesis by (simp add: d pixel_def)
qed

theorem Rectangle_draw_frame_witness:
  "grid_ok (Canvas 4 4 ''Canvas'') \<and> box_in_grid (Rectangle 1 1 2 2) (Canvas 4 4 ''Canvas'')
   \<and> \<not> in_box (Rectangle 1 1 2 2) 3 1
   \<and> pixel (snd (Rectangle_draw (Rectangle 1 1 2 2) (Canvas 4 4 ''Canvas''))) 3 1 = Color_default
   \<and> rgb (pixel (snd (Rectangle_draw (Rectangle 1 1 2 2) (Canvas 4 4 ''Canvas''))) 1 1) = (0, 0, 0)"
proof -
  let ?r = "Rectangle 1 1 2 2"
  let ?c = "Canvas 4 4 ''Canvas''"
  have g: "grid_ok ?c" by (rule grid_ok_Canvas)
  have b: "box_in_grid ?r ?c" by (simp add: box_in_grid_def Rectangle_def Canvas_def)
  have i: "\<not> in_box ?r 3 1" by (simp add: in_box_def Rectangle_def)
  have p: "pixel ?c 3 1 = Color_default" by (simp add: pixel_Canvas)
  have h: "(0::int) \<le> 3" "3 < height ?c" "(0::int) \<le> 1" "1 < width ?c" by (simp_all add: Canvas_def)
  have q: "rgb (pixel (snd (Rectangle_draw ?r ?c)) 1 1) = (0, 0, 0)" by code_simp
  show ?thesis using Rectangle_draw_frame [OF g b h i] g b i p q by simp
qed

subsection \<open>Lines\<close>





subsection \<open>The loop of report\<close>









subsection \<open>average\<close>




subsection \<open>The lists of Log are the class's\<close>

text \<open>
  C2 at a failing input. Of three Logs made by the constructor, recording a sample on the
  first changes the records (and the average) of the second, and attaching the third as a
  child of the first makes it a child of the second: the two lists are the class's.
\<close>

theorem Log_lists_shared:
  "records_of three_logs 1 = []
   \<and> records_of (Log_record 0 (3 / 2) three_logs) 1 = [3 / 2]
   \<and> Log_average three_logs 1 = Inl ZeroDivisionError
   \<and> Log_average (Log_record 0 (3 / 2) three_logs) 1 = Inr (3 / 2)
   \<and> children_of three_logs 1 = []
   \<and> children_of (Log_inside 0 2 three_logs) 1 = [2]"
  by code_simp

text \<open>
  With the shared list of children every Log is then its own descendant, and \<open>report\<close>
  exhausts any recursion depth.
\<close>

lemma shared_lists_recursion:
  "Log_report depth (Log_inside 0 2 (Log_record 0 1 three_logs)) self = Inl RecursionError"
proof (induction depth arbitrary: self)
  case 0
  show ?case by simp
next
  case (Suc depth)
  let ?w = "Log_inside 0 2 (Log_record 0 1 three_logs)"
  have c: "children_of ?w self = [2]"
    by (simp add: children_of_def Log_inside_def Log_record_def three_logs_def Log_def module_world_def)
  have r: "records_of ?w self = [1]"
    by (simp add: records_of_def children_of_def Log_inside_def Log_record_def three_logs_def Log_def module_world_def)
  show ?case
    using Suc [of 2] by (simp add: Log_average_def r c report_while.simps [of _ "[2]" 0])
qed

subsection \<open>measure\<close>

text \<open>
  C5 at a failing input. \<open>measure_call\<close> never returns a value other than \<open>None\<close>: for
  an operation that returns 42 the direct form returns \<open>None\<close>, while the wrapper of the
  decorating form returns 42.
\<close>

theorem measure_call_discards_result:
  "fst (measure_call nm callback w) \<noteq> Inr (Some v)
   \<and> fst (body answer (module_world clock0 ())) = Inr (Some 42)
   \<and> fst (measure_call (Some ''answer'') answer (module_world clock0 ())) = Inr None
   \<and> fst (wrapper answer (snd (measure_decorator None answer (module_world clock0 ())))) = Inr (Some 42)"
proof (intro conjI)
  show "fst (measure_call nm callback w) \<noteq> Inr (Some v)"
    by (auto simp: measure_call_def record_elapsed_def split: prod.splits sum.splits option.splits)
  show "fst (body answer (module_world clock0 ())) = Inr (Some 42)"
    by (simp add: answer_def)
  show "fst (measure_call (Some ''answer'') answer (module_world clock0 ())) = Inr None"
    by (simp add: measure_call_def answer_def register_def Log_def module_world_def time_time_def
        record_elapsed_def log_name_def)
  show "fst (wrapper answer (snd (measure_decorator None answer (module_world clock0 ())))) = Inr (Some 42)"
    by (simp add: wrapper_def measure_decorator_def answer_def register_def Log_def module_world_def
        time_time_def record_elapsed_def log_name_def)
qed

subsection \<open>Canvas.draw\<close>

lemma register_frame [simp]:
  "calls (register nm f w) = calls w" "app (register nm f w) = app w"
  "Canvas_objects (register nm f w) = Canvas_objects w"
  by (simp_all add: register_def Log_def split: prod.splits)

















end
